theory Spec2Isabelle
  imports Main "HOL-Library.Word" "HOL-Library.Mapping" "HOL-Library.AList_Mapping"
    "HOL-Library.Code_Target_Nat"
begin

section \<open>ParaText column chunks: \<^verbatim>\<open>src/colbased_chunk.hpp\<close>\<close>

text \<open>
  The class \<^verbatim>\<open>ColBasedChunk\<close> collects the values of one column. It keeps two
  widening vectors (\<^verbatim>\<open>number_data_\<close> and \<^verbatim>\<open>cat_data_\<close>), a dictionary from
  strings to codes (\<^verbatim>\<open>cat_ids_\<close>) and the list of the dictionary's keys in the order
  of their codes (\<^verbatim>\<open>cat_keys_\<close>). The header \<^verbatim>\<open>widening_vector.hpp\<close> that defines the
  vectors and the header \<^verbatim>\<open>parse_params.hpp\<close> that declares \<^verbatim>\<open>Semantics\<close> are
  missing; the vector is modelled from section 4.1 of the specification.
\<close>

subsection \<open>Values: \<^verbatim>\<open>long\<close>, \<^verbatim>\<open>float\<close> and their text\<close>

text \<open>
  A \<^verbatim>\<open>float\<close> is a sign with either a magnitude \<open>m * 2 ^ e\<close>, an infinity or a NaN.
  Every IEEE single is of this form; nothing below depends on the bounds of \<open>m\<close> and \<open>e\<close>.
\<close>

datatype float32 = Finite bool nat int | Infinite bool | NaN bool

text \<open>A \<^verbatim>\<open>long\<close> is a 64-bit word, read as two's complement by \<open>sint\<close>.\<close>

type_synonym long = "64 word"

text \<open>The decimal digits of a \<^verbatim>\<open>size_t\<close> or of the magnitude of a \<^verbatim>\<open>long\<close>.\<close>

definition digit :: "nat \<Rightarrow> char" where
  "digit d = ''0123456789'' ! (d mod 10)"

function digits :: "nat \<Rightarrow> string" where
  "digits n = (if n < 10 then [digit n] else digits (n div 10) @ [digit (n mod 10)])"
  by pat_completeness auto
termination
  by (relation "measure id") auto

declare digits.simps [simp del]

text \<open>\<^verbatim>\<open>std::to_string(long)\<close>: the format \<^verbatim>\<open>%ld\<close>.\<close>

definition to_string_long :: "long \<Rightarrow> string" where
  "to_string_long val =
     (if sint val < 0 then ''-'' @ digits (nat (- sint val)) else digits (nat (sint val)))"

text \<open>
  \<^verbatim>\<open>std::to_string(float)\<close>: the format \<^verbatim>\<open>%f\<close>, that is the sign, the integer part and
  six decimals, the exact value rounded to the nearest millionth, ties to even (the
  rounding of the GNU C library in the default rounding mode). \<open>round_half_even n d\<close>
  is \<open>n / d\<close> rounded so, for \<open>d > 0\<close>; \<open>micro m e\<close> is \<open>m * 2 ^ e\<close> in millionths.
\<close>

definition round_half_even :: "nat \<Rightarrow> nat \<Rightarrow> nat" where
  "round_half_even n d =
     (let q = n div d; r = n mod d
      in if d < 2 * r \<or> (2 * r = d \<and> odd q) then q + 1 else q)"

definition micro :: "nat \<Rightarrow> int \<Rightarrow> nat" where
  "micro m e =
     (if 0 \<le> e then m * 2 ^ nat e * 1000000
      else round_half_even (m * 1000000) (2 ^ nat (- e)))"

definition six_digits :: "nat \<Rightarrow> string" where
  "six_digits n =
     [digit (n div 100000), digit (n div 10000), digit (n div 1000),
      digit (n div 100), digit (n div 10), digit n]"

fun to_string_float :: "float32 \<Rightarrow> string" where
  "to_string_float (Finite s m e) =
     (if s then ''-'' else '''') @ digits (micro m e div 1000000) @ ''.''
       @ six_digits (micro m e mod 1000000)"
| "to_string_float (Infinite s) = (if s then ''-inf'' else ''inf'')"
| "to_string_float (NaN s) = (if s then ''-nan'' else ''nan'')"

text \<open>
  The conversion of an integer to \<^verbatim>\<open>float\<close>: the nearest value with a significand of
  24 bits, ties to even. \<open>bit_length n\<close> is the number of bits of \<open>n\<close>, and \<open>k\<close> the
  number of low bits that do not fit (the subtraction on \<open>nat\<close> stops at 0: none
  when \<open>n\<close> has at most 24 bits). No 64-bit integer overflows a \<^verbatim>\<open>float\<close>.
\<close>

function bit_length :: "nat \<Rightarrow> nat" where
  "bit_length n = (if n = 0 then 0 else Suc (bit_length (n div 2)))"
  by pat_completeness auto
termination
  by (relation "measure id") auto

declare bit_length.simps [simp del]

definition float_of_int :: "int \<Rightarrow> float32" where
  "float_of_int i =
     (let n = nat \<bar>i\<bar>; k = bit_length n - 24
      in Finite (i < 0) (round_half_even n (2 ^ k)) (int k))"

subsection \<open>The widening vector\<close>

text \<open>
  The class template \<^verbatim>\<open>widening_vector_dynamic\<close> is defined in \<^verbatim>\<open>widening_vector.hpp\<close>,
  which is missing. The definitions of this subsection are modelled from section 4.1
  of the specification, and each says so.
\<close>

text \<open>
  Modelled from the spec: the identifiers of the candidate types of the two vectors of
  \<^verbatim>\<open>widening_vector.hpp\<close> (missing), and the one of \<^verbatim>\<open>std::string\<close>.
\<close>

datatype type_index =
  T_int8 | T_int16 | T_int32 | T_int64 | T_float
  | T_uint8 | T_uint16 | T_uint32 | T_uint64
  | T_string

text \<open>
  Modelled from the spec: a value held by a \<^verbatim>\<open>widening_vector_dynamic\<close> (missing). The
  spec has every stored value kept without loss when the vector widens, so a stored
  value is the value appended: an integer or a \<^verbatim>\<open>float\<close>.
\<close>

datatype number = IntV int | FloatV float32

text \<open>
  The errors: the \<^verbatim>\<open>std::logic_error\<close> of \<^verbatim>\<open>insert_numeric\<close> (the spec's InvalidState)
  and the spec's OutOfRange of a read beyond the size.
\<close>

datatype error = InvalidState | OutOfRange

text \<open>
  Modelled from the spec: the state of a \<^verbatim>\<open>widening_vector_dynamic\<close> (missing), its
  active candidate type and its elements.
\<close>

record widening_vector =
  active :: type_index
  elems :: "number list"

text \<open>
  Modelled from the spec: the candidate ladder of \<^verbatim>\<open>number_data_\<close>
  (\<^verbatim>\<open>widening_vector_dynamic\<close> is missing): 8/16/32/64-bit signed integers, then
  floating point.
\<close>

definition number_ladder :: "type_index list" where
  "number_ladder = [T_int8, T_int16, T_int32, T_int64, T_float]"

text \<open>
  Modelled from the spec: the candidate ladder of \<^verbatim>\<open>cat_data_\<close>
  (\<^verbatim>\<open>widening_vector_dynamic\<close> is missing): 8/16/32/64-bit unsigned integers.
\<close>

definition cat_ladder :: "type_index list" where
  "cat_ladder = [T_uint8, T_uint16, T_uint32, T_uint64]"

text \<open>
  Modelled from the spec: the range of an integer candidate of
  \<^verbatim>\<open>widening_vector_dynamic\<close> (missing).
\<close>

fun int_range :: "type_index \<Rightarrow> (int \<times> int) option" where
  "int_range T_int8 = Some (- (2 ^ 7), 2 ^ 7 - 1)"
| "int_range T_int16 = Some (- (2 ^ 15), 2 ^ 15 - 1)"
| "int_range T_int32 = Some (- (2 ^ 31), 2 ^ 31 - 1)"
| "int_range T_int64 = Some (- (2 ^ 63), 2 ^ 63 - 1)"
| "int_range T_uint8 = Some (0, 2 ^ 8 - 1)"
| "int_range T_uint16 = Some (0, 2 ^ 16 - 1)"
| "int_range T_uint32 = Some (0, 2 ^ 32 - 1)"
| "int_range T_uint64 = Some (0, 2 ^ 64 - 1)"
| "int_range T_float = None"
| "int_range T_string = None"

text \<open>
  Modelled from the spec: the integer that a value appended to a
  \<^verbatim>\<open>widening_vector_dynamic\<close> (missing) is, if it is one.
\<close>

fun exact_int :: "number \<Rightarrow> int option" where
  "exact_int (IntV i) = Some i"
| "exact_int (FloatV (Finite s m e)) =
     (if 0 \<le> e then Some ((if s then - 1 else 1) * int (m * 2 ^ nat e))
      else if 2 ^ nat (- e) dvd m then Some ((if s then - 1 else 1) * int (m div 2 ^ nat (- e)))
      else None)"
| "exact_int (FloatV (Infinite s)) = None"
| "exact_int (FloatV (NaN s)) = None"

text \<open>
  Modelled from the spec: which values a candidate type of \<^verbatim>\<open>widening_vector_dynamic\<close>
  (missing) represents exactly. An integer type holds the integers of its range; the
  floating-point candidate is the widest of its ladder and takes every value.
\<close>

definition fits :: "type_index \<Rightarrow> number \<Rightarrow> bool" where
  "fits t v =
     (case int_range t of
        Some (lo, hi) \<Rightarrow> (case exact_int v of Some i \<Rightarrow> lo \<le> i \<and> i \<le> hi | None \<Rightarrow> False)
      | None \<Rightarrow> t = T_float)"

text \<open>
  Modelled from the spec: the constructor of \<^verbatim>\<open>widening_vector_dynamic\<close> (missing).
  The vector is created empty, its active type the narrowest candidate.
\<close>

definition wv_new :: "type_index list \<Rightarrow> widening_vector" where
  "wv_new ladder = \<lparr>active = hd ladder, elems = []\<rparr>"

text \<open>
  Modelled from the spec: \<^verbatim>\<open>widening_vector_dynamic::size\<close> (missing), the number of
  logical elements.
\<close>

definition wv_size :: "widening_vector \<Rightarrow> nat" where
  "wv_size w = length (elems w)"

text \<open>
  Modelled from the spec: the choice of the type in \<^verbatim>\<open>widening_vector_dynamic::push_back\<close>
  (missing). The ladder is scanned from the active type upward for the first candidate
  that represents the value exactly; the widest candidate takes a value that none
  represents.
\<close>

definition wv_widen :: "type_index list \<Rightarrow> type_index \<Rightarrow> number \<Rightarrow> type_index" where
  "wv_widen ladder t v =
     (case find (\<lambda>c. fits c v) (dropWhile (\<lambda>c. c \<noteq> t) ladder) of
        Some c \<Rightarrow> c
      | None \<Rightarrow> last ladder)"

text \<open>
  Modelled from the spec: \<^verbatim>\<open>widening_vector_dynamic::push_back\<close> (missing). The vector
  is promoted to the type chosen, the values it holds are kept, and the value is
  appended.
\<close>

definition wv_push_back :: "type_index list \<Rightarrow> number \<Rightarrow> widening_vector \<Rightarrow> widening_vector" where
  "wv_push_back ladder v w = \<lparr>active = wv_widen ladder (active w) v, elems = elems w @ [v]\<rparr>"

text \<open>
  Modelled from the spec: \<^verbatim>\<open>widening_vector_dynamic::get<T>\<close> (missing). The value at
  the index converted to \<open>T\<close> (the conversion is the argument \<open>conv\<close>), and an
  OutOfRange error when the index is not below the size.
\<close>

definition wv_get :: "(number \<Rightarrow> 'a) \<Rightarrow> widening_vector \<Rightarrow> nat \<Rightarrow> error + 'a" where
  "wv_get conv w i = (if i < wv_size w then Inr (conv (elems w ! i)) else Inl OutOfRange)"

text \<open>
  Modelled from the spec: \<^verbatim>\<open>widening_vector_dynamic::clear\<close> (missing). The count is
  reset to 0 and the active type to the narrowest candidate.
\<close>

definition wv_clear :: "type_index list \<Rightarrow> widening_vector \<Rightarrow> widening_vector" where
  "wv_clear ladder w = wv_new ladder"

text \<open>
  Modelled from the spec: \<^verbatim>\<open>widening_vector_dynamic::shrink_to_fit\<close> (missing). It
  compacts the backing storage and changes no value.
\<close>

definition wv_shrink_to_fit :: "widening_vector \<Rightarrow> widening_vector" where
  "wv_shrink_to_fit w = w"

text \<open>
  Modelled from the spec: \<^verbatim>\<open>widening_vector_dynamic::get_type_index\<close> (missing), the
  identifier of the active candidate type.
\<close>

definition wv_get_type_index :: "widening_vector \<Rightarrow> type_index" where
  "wv_get_type_index w = active w"

text \<open>
  Modelled from the spec: the position of a candidate in a ladder of
  \<^verbatim>\<open>widening_vector_dynamic\<close> (missing); the length of the ladder for any other
  identifier.
\<close>

fun rank :: "type_index list \<Rightarrow> type_index \<Rightarrow> nat" where
  "rank [] t = 0"
| "rank (c # cs) t = (if c = t then 0 else Suc (rank cs t))"

text \<open>
  Modelled from the spec: \<^verbatim>\<open>widening_vector_dynamic::get_common_type_index\<close> (missing).
  With the string identifier on either side the result is the string identifier;
  otherwise it is the wider of the two candidates, the one further up the ladder. The
  spec says nothing about an identifier outside the ladder.
\<close>

definition wv_get_common_type_index ::
  "type_index list \<Rightarrow> widening_vector \<Rightarrow> type_index \<Rightarrow> type_index" where
  "wv_get_common_type_index ladder w other =
     (if other = T_string \<or> active w = T_string then T_string
      else if rank ladder (active w) < rank ladder other then other
      else active w)"

text \<open>
  The conversion of \<^verbatim>\<open>get<float>\<close>: a stored integer is converted to \<^verbatim>\<open>float\<close>, a
  stored \<^verbatim>\<open>float\<close> is returned as it is.
\<close>

fun as_float :: "number \<Rightarrow> float32" where
  "as_float (IntV i) = float_of_int i"
| "as_float (FloatV f) = f"

subsection \<open>The chunk\<close>

text \<open>
  The two values of \<^verbatim>\<open>Semantics\<close> that the class uses (the enumeration is declared in
  \<^verbatim>\<open>parse_params.hpp\<close>).
\<close>

datatype Semantics = NUMERIC | STRINGISH

text \<open>
  The fields of the class. A \<^verbatim>\<open>size_t\<close> is a natural number: the bound of 64 bits
  on the number of elements and of keys is not modelled.
\<close>

record ColBasedChunk =
  column_name :: string
  number_data :: widening_vector
  cat_data :: widening_vector
  cat_ids :: "(string, nat) mapping"
  cat_keys :: "string list"

text \<open>The constructors: both vectors and the dictionary are empty.\<close>

definition new_chunk :: "string \<Rightarrow> ColBasedChunk" where
  "new_chunk name =
     \<lparr>column_name = name, number_data = wv_new number_ladder, cat_data = wv_new cat_ladder,
      cat_ids = Mapping.empty, cat_keys = []\<rparr>"

text \<open>
  \<^verbatim>\<open>get_string_id\<close>: the code of a key, a new key taking the size of the dictionary as
  its code and being appended to \<^verbatim>\<open>cat_keys_\<close>. The result is the code and the chunk.
\<close>

definition get_string_id :: "string \<Rightarrow> ColBasedChunk \<Rightarrow> nat \<times> ColBasedChunk" where
  "get_string_id key c =
     (case Mapping.lookup (cat_ids c) key of
        None \<Rightarrow>
          (let n = Mapping.size (cat_ids c)
           in (n, c\<lparr>cat_ids := Mapping.update key n (cat_ids c), cat_keys := cat_keys c @ [key]\<rparr>))
      | Some i \<Rightarrow> (i, c))"

text \<open>
  The statement \<^verbatim>\<open>cat_data_.push_back((long)get_string_id(key))\<close>, which is the body of
  \<^verbatim>\<open>add_cat_data\<close> and occurs three more times.
\<close>

definition add_cat_data :: "string \<Rightarrow> ColBasedChunk \<Rightarrow> ColBasedChunk" where
  "add_cat_data key c =
     (let (i, c') = get_string_id key c
      in c'\<lparr>cat_data := wv_push_back cat_ladder (IntV (int i)) (cat_data c')\<rparr>)"

text \<open>
  \<^verbatim>\<open>convert_to_string\<close>: \<open>convert_from i\<close> is the \<^verbatim>\<open>for\<close> loop from the index \<open>i\<close> on.
  The loop reads \<^verbatim>\<open>number_data_.get<float>(i)\<close> below the size only.
\<close>

function convert_from :: "nat \<Rightarrow> ColBasedChunk \<Rightarrow> ColBasedChunk" where
  "convert_from i c =
     (if i < wv_size (number_data c)
      then convert_from (i + 1)
             (add_cat_data (to_string_float (as_float (elems (number_data c) ! i))) c)
      else c)"
  by pat_completeness auto
termination
  by (relation "measure (\<lambda>(i, c). wv_size (number_data c) - i)")
     (auto simp: add_cat_data_def get_string_id_def Let_def split: option.splits)

declare convert_from.simps [simp del]

definition convert_to_string :: "ColBasedChunk \<Rightarrow> ColBasedChunk" where
  "convert_to_string c =
     (if wv_size (number_data c) > 0
      then (let c' = convert_from 0 c
            in c'\<lparr>number_data := wv_shrink_to_fit (wv_clear number_ladder (number_data c'))\<rparr>)
      else c)"

text \<open>\<^verbatim>\<open>process_categorical\<close>; the iterator range is the string it delimits.\<close>

definition process_categorical :: "string \<Rightarrow> ColBasedChunk \<Rightarrow> ColBasedChunk" where
  "process_categorical key c =
     (if wv_size (number_data c) > 0
      then (if key = []
            then c\<lparr>number_data := wv_push_back number_ladder (IntV 0) (number_data c)\<rparr>
            else add_cat_data key (convert_to_string c))
      else add_cat_data key c)"

definition process_float :: "float32 \<Rightarrow> ColBasedChunk \<Rightarrow> ColBasedChunk" where
  "process_float val c =
     (if wv_size (cat_data c) > 0
      then process_categorical (to_string_float val) c
      else c\<lparr>number_data := wv_push_back number_ladder (FloatV val) (number_data c)\<rparr>)"

definition process_integer :: "long \<Rightarrow> ColBasedChunk \<Rightarrow> ColBasedChunk" where
  "process_integer val c =
     (if wv_size (cat_data c) > 0
      then process_categorical (to_string_long val) c
      else c\<lparr>number_data := wv_push_back number_ladder (IntV (sint val)) (number_data c)\<rparr>)"

definition get_semantics :: "ColBasedChunk \<Rightarrow> Semantics" where
  "get_semantics c = (if wv_size (cat_data c) > 0 then STRINGISH else NUMERIC)"

definition get_type_index :: "ColBasedChunk \<Rightarrow> type_index" where
  "get_type_index c =
     (if wv_size (cat_data c) > 0 then T_string else wv_get_type_index (number_data c))"

definition get_common_type_index :: "ColBasedChunk \<Rightarrow> type_index \<Rightarrow> type_index" where
  "get_common_type_index c other =
     (if wv_size (cat_data c) > 0 \<or> other = T_string then T_string
      else wv_get_common_type_index number_ladder (number_data c) other)"

text \<open>
  \<^verbatim>\<open>insert_numeric\<close>: the values copied to the output, each read as a \<^verbatim>\<open>float\<close> and
  cast to \<open>T\<close> by \<open>cast\<close>, or the \<^verbatim>\<open>std::logic_error\<close>. The count returned is the
  length of the list. The loop reads below the size only.
\<close>

definition insert_numeric :: "(float32 \<Rightarrow> 'a) \<Rightarrow> ColBasedChunk \<Rightarrow> error + 'a list" where
  "insert_numeric cast c =
     (if wv_size (cat_data c) > 0 then Inl InvalidState
      else Inr (map (\<lambda>i. cast (as_float (elems (number_data c) ! i)))
                  [0 ..< wv_size (number_data c)]))"

text \<open>
  The two overloads of \<^verbatim>\<open>get<T, Numeric>\<close>, chosen by the template argument
  \<^verbatim>\<open>Numeric\<close>; \<open>conv\<close> is the conversion to \<open>T\<close>.
\<close>

definition get :: "(number \<Rightarrow> 'a) \<Rightarrow> bool \<Rightarrow> ColBasedChunk \<Rightarrow> nat \<Rightarrow> error + 'a" where
  "get conv Numeric c i =
     (if Numeric then wv_get conv (number_data c) i else wv_get conv (cat_data c) i)"

definition get_cat_keys :: "ColBasedChunk \<Rightarrow> string list" where
  "get_cat_keys c = cat_keys c"

definition size_chunk :: "ColBasedChunk \<Rightarrow> nat" where
  "size_chunk c =
     (if wv_size (cat_data c) > 0 then wv_size (cat_data c) else wv_size (number_data c))"

definition clear :: "ColBasedChunk \<Rightarrow> ColBasedChunk" where
  "clear c =
     c\<lparr>number_data := wv_clear number_ladder (number_data c),
       cat_data := wv_clear cat_ladder (cat_data c),
       cat_ids := Mapping.empty,
       cat_keys := []\<rparr>"

text \<open>The calls that change a chunk, and a sequence of them run from left to right.\<close>

datatype call =
  Float float32 | Integer long | Categorical string | AddCat string | Convert | Clear

fun apply_call :: "ColBasedChunk \<Rightarrow> call \<Rightarrow> ColBasedChunk" where
  "apply_call c (Float val) = process_float val c"
| "apply_call c (Integer val) = process_integer val c"
| "apply_call c (Categorical key) = process_categorical key c"
| "apply_call c (AddCat key) = add_cat_data key c"
| "apply_call c Convert = convert_to_string c"
| "apply_call c Clear = clear c"

definition run :: "ColBasedChunk \<Rightarrow> call list \<Rightarrow> ColBasedChunk" where
  "run c calls = foldl apply_call c calls"

text \<open>The texts that the codes of \<^verbatim>\<open>cat_data_\<close> stand for, read off \<^verbatim>\<open>cat_keys_\<close>.\<close>

fun code_of :: "number \<Rightarrow> nat" where
  "code_of (IntV i) = nat i"
| "code_of (FloatV f) = 0"

definition decoded :: "ColBasedChunk \<Rightarrow> string list" where
  "decoded c = map (\<lambda>v. get_cat_keys c ! code_of v) (elems (cat_data c))"

subsection \<open>Notions of the specification\<close>

text \<open>
  The dictionary is consistent when \<^verbatim>\<open>cat_ids_\<close> maps exactly the keys of \<^verbatim>\<open>cat_keys_\<close>,
  each to its position in that list.
\<close>

definition dict_ok :: "ColBasedChunk \<Rightarrow> bool" where
  "dict_ok c \<longleftrightarrow>
     Mapping.keys (cat_ids c) = set (cat_keys c) \<and>
     map (Mapping.lookup (cat_ids c)) (cat_keys c) = map Some [0 ..< length (cat_keys c)]"

text \<open>Every element of \<^verbatim>\<open>cat_data_\<close> is the code of a key.\<close>

fun is_code :: "nat \<Rightarrow> number \<Rightarrow> bool" where
  "is_code n (IntV i) = (0 \<le> i \<and> nat i < n)"
| "is_code n (FloatV f) = False"

definition codes_ok :: "ColBasedChunk \<Rightarrow> bool" where
  "codes_ok c = list_all (is_code (length (cat_keys c))) (elems (cat_data c))"

definition consistent :: "ColBasedChunk \<Rightarrow> bool" where
  "consistent c \<longleftrightarrow> dict_ok c \<and> codes_ok c"

text \<open>The mode invariant of the specification: at most one store is non-empty.\<close>

definition mode_ok :: "ColBasedChunk \<Rightarrow> bool" where
  "mode_ok c \<longleftrightarrow> wv_size (number_data c) = 0 \<or> wv_size (cat_data c) = 0"

text \<open>The calls of the input boundary, and the call that bypasses the numeric path.\<close>

fun is_process :: "call \<Rightarrow> bool" where
  "is_process (Float val) = True"
| "is_process (Integer val) = True"
| "is_process (Categorical key) = True"
| "is_process other = False"

fun is_add_cat :: "call \<Rightarrow> bool" where
  "is_add_cat (AddCat key) = True"
| "is_add_cat other = False"

text \<open>
  The text that \<^verbatim>\<open>convert_to_string\<close> makes of a stored value:
  \<^verbatim>\<open>std::to_string(number_data_.get<float>(i))\<close>.
\<close>

definition rendered :: "number \<Rightarrow> string" where
  "rendered v = to_string_float (as_float v)"

text \<open>Interning a sequence of texts, with the code of each.\<close>

fun intern_all :: "string list \<Rightarrow> ColBasedChunk \<Rightarrow> nat list \<times> ColBasedChunk" where
  "intern_all [] c = ([], c)"
| "intern_all (key # keys) c =
     (let (i, c') = get_string_id key c; (js, c'') = intern_all keys c'
      in (i # js, c''))"

text \<open>The distinct texts of a sequence, in the order in which each is first seen.\<close>

definition first_seen :: "string list \<Rightarrow> string list" where
  "first_seen texts = rev (remdups (rev texts))"

text \<open>
  Categorical for good: no number is left and at least one code is stored.
\<close>

definition settled :: "ColBasedChunk \<Rightarrow> bool" where
  "settled c \<longleftrightarrow> wv_size (number_data c) = 0 \<and> 0 < wv_size (cat_data c)"

text \<open>
  A sequence of calls, run from the chunk \<open>c\<close>, that calls \<^verbatim>\<open>add_cat_data\<close> only
  while the numeric store is empty.
\<close>

fun add_cat_guarded :: "ColBasedChunk \<Rightarrow> call list \<Rightarrow> bool" where
  "add_cat_guarded c [] = True"
| "add_cat_guarded c (call # calls) =
     ((is_add_cat call \<longrightarrow> wv_size (number_data c) = 0)
      \<and> add_cat_guarded (apply_call c call) calls)"

section \<open>Properties of the model\<close>

subsection \<open>The widening vector\<close>

lemma wv_size_new [simp]: "wv_size (wv_new ladder) = 0"
  by (simp add: wv_size_def wv_new_def)

lemma elems_new [simp]: "elems (wv_new ladder) = []"
  by (simp add: wv_new_def)

lemma elems_push_back [simp]: "elems (wv_push_back ladder v w) = elems w @ [v]"
  by (simp add: wv_push_back_def)

lemma wv_size_push_back [simp]: "wv_size (wv_push_back ladder v w) = Suc (wv_size w)"
  by (simp add: wv_size_def)

lemma wv_clear_eq [simp]: "wv_shrink_to_fit (wv_clear ladder w) = wv_new ladder"
  by (simp add: wv_shrink_to_fit_def wv_clear_def)

subsection \<open>The dictionary\<close>

lemma get_string_id_fields [simp]:
  "number_data (snd (get_string_id key c)) = number_data c"
  "cat_data (snd (get_string_id key c)) = cat_data c"
  "column_name (snd (get_string_id key c)) = column_name c"
  by (simp_all add: get_string_id_def Let_def split: option.splits)

lemma dict_ok_distinct: "dict_ok c \<Longrightarrow> distinct (cat_keys c)"
proof -
  assume "dict_ok c"
  then have "map (Mapping.lookup (cat_ids c)) (cat_keys c) = map Some [0 ..< length (cat_keys c)]"
    by (simp add: dict_ok_def)
  moreover have "distinct (map Some [0 ..< length (cat_keys c)])"
    by (simp add: distinct_map)
  ultimately have "distinct (map (Mapping.lookup (cat_ids c)) (cat_keys c))"
    by simp
  then show ?thesis
    by (simp add: distinct_map)
qed

lemma dict_ok_size: "dict_ok c \<Longrightarrow> Mapping.size (cat_ids c) = length (cat_keys c)"
  using dict_ok_distinct [of c] by (simp add: dict_ok_def Mapping.size_def distinct_card)

lemma dict_ok_lookup_nth:
  assumes "dict_ok c" "i < length (cat_keys c)"
  shows "Mapping.lookup (cat_ids c) (cat_keys c ! i) = Some i"
proof -
  have "map (Mapping.lookup (cat_ids c)) (cat_keys c) ! i = map Some [0 ..< length (cat_keys c)] ! i"
    using assms(1) by (simp add: dict_ok_def)
  then show ?thesis using assms(2) by simp
qed

lemma dict_ok_lookup_None:
  "dict_ok c \<Longrightarrow> Mapping.lookup (cat_ids c) key = None \<longleftrightarrow> key \<notin> set (cat_keys c)"
  by (auto simp: dict_ok_def keys_dom_lookup)

lemma dict_ok_lookup_Some:
  assumes "dict_ok c" "Mapping.lookup (cat_ids c) key = Some i"
  shows "i < length (cat_keys c) \<and> cat_keys c ! i = key"
proof -
  from assms have "key \<in> set (cat_keys c)"
    using dict_ok_lookup_None [of c key] by auto
  then obtain j where j: "j < length (cat_keys c)" "cat_keys c ! j = key"
    by (auto simp: in_set_conv_nth)
  with assms(1) have "Mapping.lookup (cat_ids c) key = Some j"
    using dict_ok_lookup_nth by blast
  with assms(2) j show ?thesis by simp
qed

text \<open>What \<^verbatim>\<open>get_string_id\<close> returns and leaves behind.\<close>

lemma get_string_id_seen:
  assumes "dict_ok c" "key \<in> set (cat_keys c)"
  shows "snd (get_string_id key c) = c"
    and "fst (get_string_id key c) < length (cat_keys c)"
    and "cat_keys c ! fst (get_string_id key c) = key"
proof -
  from assms obtain i where i: "Mapping.lookup (cat_ids c) key = Some i"
    using dict_ok_lookup_None [of c key] by auto
  then have "get_string_id key c = (i, c)"
    by (simp add: get_string_id_def)
  with dict_ok_lookup_Some [OF assms(1) i]
  show "snd (get_string_id key c) = c"
    and "fst (get_string_id key c) < length (cat_keys c)"
    and "cat_keys c ! fst (get_string_id key c) = key"
    by simp_all
qed

lemma get_string_id_new:
  assumes "dict_ok c" "key \<notin> set (cat_keys c)"
  shows "fst (get_string_id key c) = length (cat_keys c)"
    and "cat_keys (snd (get_string_id key c)) = cat_keys c @ [key]"
    and "cat_ids (snd (get_string_id key c)) =
           Mapping.update key (length (cat_keys c)) (cat_ids c)"
proof -
  from assms have "Mapping.lookup (cat_ids c) key = None"
    using dict_ok_lookup_None by blast
  then show "fst (get_string_id key c) = length (cat_keys c)"
    and "cat_keys (snd (get_string_id key c)) = cat_keys c @ [key]"
    and "cat_ids (snd (get_string_id key c)) =
           Mapping.update key (length (cat_keys c)) (cat_ids c)"
    using dict_ok_size [OF assms(1)] by (simp_all add: get_string_id_def Let_def)
qed

lemma get_string_id_keys:
  "dict_ok c \<Longrightarrow>
     cat_keys (snd (get_string_id key c)) =
       (if key \<in> set (cat_keys c) then cat_keys c else cat_keys c @ [key])"
  by (simp add: get_string_id_seen(1) get_string_id_new(2))

lemma get_string_id_code:
  assumes "dict_ok c"
  shows "fst (get_string_id key c) < length (cat_keys (snd (get_string_id key c)))"
    and "cat_keys (snd (get_string_id key c)) ! fst (get_string_id key c) = key"
proof -
  show "fst (get_string_id key c) < length (cat_keys (snd (get_string_id key c)))"
    using assms get_string_id_seen [of c key] get_string_id_new [of c key]
    by (cases "key \<in> set (cat_keys c)") simp_all
  show "cat_keys (snd (get_string_id key c)) ! fst (get_string_id key c) = key"
    using assms get_string_id_seen [of c key] get_string_id_new [of c key]
    by (cases "key \<in> set (cat_keys c)") simp_all
qed

lemma get_string_id_dict_ok:
  assumes "dict_ok c"
  shows "dict_ok (snd (get_string_id key c))"
proof (cases "key \<in> set (cat_keys c)")
  case True
  with assms show ?thesis by (simp add: get_string_id_seen(1))
next
  case False
  have "map (Mapping.lookup (Mapping.update key (length (cat_keys c)) (cat_ids c))) (cat_keys c)
        = map (Mapping.lookup (cat_ids c)) (cat_keys c)"
    using False by (intro map_cong) (auto simp: lookup_update')
  with assms False show ?thesis
    by (simp add: dict_ok_def get_string_id_new [OF assms False])
qed

subsection \<open>Appending a code\<close>

lemma add_cat_data_eq:
  "add_cat_data key c =
     (snd (get_string_id key c))
       \<lparr>cat_data := wv_push_back cat_ladder (IntV (int (fst (get_string_id key c))))
                      (cat_data c)\<rparr>"
  by (simp add: add_cat_data_def split_beta)

lemma add_cat_data_fields [simp]:
  "number_data (add_cat_data key c) = number_data c"
  "column_name (add_cat_data key c) = column_name c"
  "cat_keys (add_cat_data key c) = cat_keys (snd (get_string_id key c))"
  "cat_ids (add_cat_data key c) = cat_ids (snd (get_string_id key c))"
  "elems (cat_data (add_cat_data key c)) =
     elems (cat_data c) @ [IntV (int (fst (get_string_id key c)))]"
  by (simp_all add: add_cat_data_eq)

lemma wv_size_add_cat_data [simp]:
  "wv_size (cat_data (add_cat_data key c)) = Suc (wv_size (cat_data c))"
  by (simp add: add_cat_data_eq)

lemma is_code_mono: "is_code n v \<Longrightarrow> n \<le> m \<Longrightarrow> is_code m v"
  by (cases v) auto

lemma add_cat_data_consistent:
  assumes "consistent c"
  shows "consistent (add_cat_data key c)"
proof -
  from assms have d: "dict_ok c" and k: "codes_ok c"
    by (simp_all add: consistent_def)
  have "dict_ok (add_cat_data key c)"
    using get_string_id_dict_ok [OF d, of key] by (simp add: dict_ok_def)
  moreover have "length (cat_keys c) \<le> length (cat_keys (snd (get_string_id key c)))"
    by (simp add: get_string_id_keys [OF d])
  then have "list_all (is_code (length (cat_keys (snd (get_string_id key c))))) (elems (cat_data c))"
    using k by (auto simp: codes_ok_def list_all_iff intro: is_code_mono)
  then have "codes_ok (add_cat_data key c)"
    using get_string_id_code(1) [OF d, of key] by (simp add: codes_ok_def)
  ultimately show ?thesis
    by (simp add: consistent_def)
qed

lemma decoded_add_cat_data:
  assumes "consistent c"
  shows "decoded (add_cat_data key c) = decoded c @ [key]"
proof -
  from assms have d: "dict_ok c" and k: "codes_ok c"
    by (simp_all add: consistent_def)
  have "cat_keys (snd (get_string_id key c)) ! code_of v = cat_keys c ! code_of v"
    if "v \<in> set (elems (cat_data c))" for v
  proof -
    from that k have "is_code (length (cat_keys c)) v"
      by (simp add: codes_ok_def list_all_iff)
    then have "code_of v < length (cat_keys c)"
      by (cases v) auto
    then show ?thesis
      by (simp add: get_string_id_keys [OF d] nth_append)
  qed
  then show ?thesis
    using get_string_id_code(2) [OF d, of key]
    by (simp add: decoded_def get_cat_keys_def)
qed

subsection \<open>The conversion loop\<close>

lemma convert_from_number_data [simp]: "number_data (convert_from i c) = number_data c"
proof (induction i c rule: convert_from.induct)
  case (1 i c)
  then show ?case
    by (subst convert_from.simps) simp
qed

lemma convert_from_column_name [simp]: "column_name (convert_from i c) = column_name c"
proof (induction i c rule: convert_from.induct)
  case (1 i c)
  then show ?case
    by (subst convert_from.simps) simp
qed

lemma wv_size_convert_from:
  "wv_size (cat_data (convert_from i c)) = wv_size (cat_data c) + (wv_size (number_data c) - i)"
proof (induction i c rule: convert_from.induct)
  case (1 i c)
  show ?case
  proof (cases "i < wv_size (number_data c)")
    case True
    with "1" show ?thesis
      by (subst convert_from.simps) simp
  next
    case False
    then show ?thesis
      by (subst convert_from.simps) simp
  qed
qed

lemma convert_from_consistent: "consistent c \<Longrightarrow> consistent (convert_from i c)"
proof (induction i c rule: convert_from.induct)
  case (1 i c)
  show ?case
  proof (cases "i < wv_size (number_data c)")
    case True
    with "1" show ?thesis
      by (subst convert_from.simps) (simp add: add_cat_data_consistent)
  next
    case False
    with "1.prems" show ?thesis
      by (subst convert_from.simps) simp
  qed
qed

lemma decoded_convert_from:
  "consistent c \<Longrightarrow>
     decoded (convert_from i c) = decoded c @ map rendered (drop i (elems (number_data c)))"
proof (induction i c rule: convert_from.induct)
  case (1 i c)
  show ?case
  proof (cases "i < wv_size (number_data c)")
    case True
    then have "drop i (elems (number_data c)) =
                 elems (number_data c) ! i # drop (Suc i) (elems (number_data c))"
      by (simp add: wv_size_def Cons_nth_drop_Suc)
    with "1" True show ?thesis
      by (subst convert_from.simps)
         (simp add: add_cat_data_consistent decoded_add_cat_data rendered_def)
  next
    case False
    then show ?thesis
      by (subst convert_from.simps) (simp add: wv_size_def)
  qed
qed

lemma convert_to_string_fields [simp]:
  "column_name (convert_to_string c) = column_name c"
  "wv_size (number_data (convert_to_string c)) = 0"
  by (simp_all add: convert_to_string_def Let_def)

lemma number_data_convert_to_string:
  "number_data (convert_to_string c) =
     (if 0 < wv_size (number_data c) then wv_new number_ladder else number_data c)"
  by (simp add: convert_to_string_def Let_def)

lemma wv_size_convert_to_string:
  "wv_size (cat_data (convert_to_string c)) = wv_size (cat_data c) + wv_size (number_data c)"
  by (simp add: convert_to_string_def Let_def wv_size_convert_from)

lemma convert_to_string_consistent: "consistent c \<Longrightarrow> consistent (convert_to_string c)"
  using convert_from_consistent [of c 0]
  by (simp add: convert_to_string_def Let_def consistent_def dict_ok_def codes_ok_def)

lemma decoded_convert_to_string:
  assumes "consistent c"
  shows "decoded (convert_to_string c) = decoded c @ map rendered (elems (number_data c))"
proof (cases "0 < wv_size (number_data c)")
  case True
  have "decoded (convert_to_string c) = decoded (convert_from 0 c)"
    using True by (simp add: convert_to_string_def Let_def decoded_def get_cat_keys_def)
  then show ?thesis
    by (simp add: decoded_convert_from [OF assms])
next
  case False
  then show ?thesis
    by (simp add: convert_to_string_def wv_size_def)
qed

subsection \<open>The calls\<close>

lemma process_categorical_number_empty:
  "wv_size (number_data c) = 0 \<Longrightarrow> process_categorical key c = add_cat_data key c"
  by (simp add: process_categorical_def)

lemma process_float_cat_empty:
  "wv_size (cat_data c) = 0 \<Longrightarrow>
     process_float val c =
       c\<lparr>number_data := wv_push_back number_ladder (FloatV val) (number_data c)\<rparr>"
  by (simp add: process_float_def)

lemma process_integer_cat_empty:
  "wv_size (cat_data c) = 0 \<Longrightarrow>
     process_integer val c =
       c\<lparr>number_data := wv_push_back number_ladder (IntV (sint val)) (number_data c)\<rparr>"
  by (simp add: process_integer_def)

lemma consistent_number_data_update:
  "consistent (c\<lparr>number_data := w\<rparr>) = consistent c"
  by (simp add: consistent_def dict_ok_def codes_ok_def)

lemma new_chunk_consistent: "consistent (new_chunk name)"
  by (simp add: consistent_def dict_ok_def codes_ok_def new_chunk_def)

lemma clear_consistent: "consistent (clear c)"
  by (simp add: consistent_def dict_ok_def codes_ok_def clear_def wv_clear_def)

lemma process_categorical_consistent:
  "consistent c \<Longrightarrow> consistent (process_categorical key c)"
  by (simp add: process_categorical_def consistent_number_data_update
      add_cat_data_consistent convert_to_string_consistent)

lemma apply_call_consistent: "consistent c \<Longrightarrow> consistent (apply_call c call)"
  by (cases call)
     (simp_all add: process_float_def process_integer_def process_categorical_consistent
        consistent_number_data_update add_cat_data_consistent convert_to_string_consistent
        clear_consistent)

lemma run_consistent: "consistent c \<Longrightarrow> consistent (run c calls)"
  unfolding run_def by (induction calls arbitrary: c) (simp_all add: apply_call_consistent)

lemma run_snoc: "run c (calls @ [call]) = apply_call (run c calls) call"
  by (simp add: run_def)

text \<open>The mode invariant, call by call.\<close>

lemma mode_ok_new_chunk: "mode_ok (new_chunk name)"
  by (simp add: mode_ok_def new_chunk_def)

lemma mode_ok_add_cat_data:
  "wv_size (number_data c) = 0 \<Longrightarrow> mode_ok (add_cat_data key c)"
  by (simp add: mode_ok_def)

lemma mode_ok_convert_to_string: "mode_ok (convert_to_string c)"
  by (simp add: mode_ok_def)

lemma mode_ok_clear: "mode_ok (clear c)"
  by (simp add: mode_ok_def clear_def wv_clear_def)

lemma mode_ok_process_categorical:
  "mode_ok c \<Longrightarrow> mode_ok (process_categorical key c)"
  by (auto simp: mode_ok_def process_categorical_def)

lemma mode_ok_process_float: "mode_ok c \<Longrightarrow> mode_ok (process_float val c)"
  by (auto simp: process_float_def mode_ok_process_categorical) (simp add: mode_ok_def)

lemma mode_ok_process_integer: "mode_ok c \<Longrightarrow> mode_ok (process_integer val c)"
  by (auto simp: process_integer_def mode_ok_process_categorical) (simp add: mode_ok_def)

lemma settled_convert_to_string:
  "0 < wv_size (number_data c) \<Longrightarrow> settled (convert_to_string c)"
  by (simp add: settled_def wv_size_convert_to_string)

lemma settled_add_cat_data: "wv_size (number_data c) = 0 \<Longrightarrow> settled (add_cat_data key c)"
  by (simp add: settled_def)

lemma settled_process:
  assumes "settled c"
  shows "process_categorical key c = add_cat_data key c"
    and "process_float val c = add_cat_data (to_string_float val) c"
    and "process_integer ival c = add_cat_data (to_string_long ival) c"
  using assms
  by (simp_all add: settled_def process_float_def process_integer_def process_categorical_def)

lemma settled_apply_call: "settled c \<Longrightarrow> is_process call \<Longrightarrow> settled (apply_call c call)"
  by (cases call) (simp_all add: settled_process, simp_all add: settled_def)

lemma settled_run:
  "settled c \<Longrightarrow> \<forall>call \<in> set calls. is_process call \<Longrightarrow> settled (run c calls)"
  unfolding run_def by (induction calls arbitrary: c) (simp_all add: settled_apply_call)

lemma mode_ok_guarded_run:
  "mode_ok c \<Longrightarrow> add_cat_guarded c calls \<Longrightarrow> mode_ok (run c calls)"
proof (induction calls arbitrary: c)
  case Nil
  then show ?case by (simp add: run_def)
next
  case (Cons call calls)
  from Cons.prems have "mode_ok (apply_call c call)"
    by (cases call)
       (simp_all add: mode_ok_process_float mode_ok_process_integer mode_ok_process_categorical
          mode_ok_add_cat_data mode_ok_convert_to_string mode_ok_clear)
  with Cons show ?case
    by (simp add: run_def)
qed

subsection \<open>Interning a sequence\<close>

lemma intern_all_append:
  "intern_all (xs @ ys) c =
     (fst (intern_all xs c) @ fst (intern_all ys (snd (intern_all xs c))),
      snd (intern_all ys (snd (intern_all xs c))))"
  by (induction xs arbitrary: c) (simp_all add: split_beta)

lemma intern_all_snoc:
  "intern_all (xs @ [key]) c =
     (fst (intern_all xs c) @ [fst (get_string_id key (snd (intern_all xs c)))],
      snd (get_string_id key (snd (intern_all xs c))))"
  by (simp add: intern_all_append split_beta)

lemma first_seen_snoc:
  "first_seen (xs @ [x]) = (if x \<in> set xs then first_seen xs else first_seen xs @ [x])"
  by (simp add: first_seen_def)

lemma set_first_seen [simp]: "set (first_seen xs) = set xs"
  by (simp add: first_seen_def)

lemma intern_all_fresh:
  "dict_ok (snd (intern_all texts (new_chunk name)))
   \<and> cat_keys (snd (intern_all texts (new_chunk name))) = first_seen texts
   \<and> length (fst (intern_all texts (new_chunk name))) = length texts
   \<and> (\<forall>i<length texts. fst (intern_all texts (new_chunk name)) ! i < length (first_seen texts)
         \<and> first_seen texts ! (fst (intern_all texts (new_chunk name)) ! i) = texts ! i)"
proof (induction texts rule: rev_induct)
  case Nil
  have "dict_ok (new_chunk name)"
    using new_chunk_consistent by (simp add: consistent_def)
  then show ?case
    by (simp add: first_seen_def new_chunk_def)
next
  case (snoc key texts)
  let ?c = "snd (intern_all texts (new_chunk name))"
  let ?codes = "fst (intern_all texts (new_chunk name))"
  from snoc have d: "dict_ok ?c" and k: "cat_keys ?c = first_seen texts"
    and l: "length ?codes = length texts"
    and n: "\<And>i. i < length texts \<Longrightarrow>
              ?codes ! i < length (first_seen texts) \<and> first_seen texts ! (?codes ! i) = texts ! i"
    by simp_all
  have k': "cat_keys (snd (get_string_id key ?c)) = first_seen (texts @ [key])"
    by (simp add: get_string_id_keys [OF d] k first_seen_snoc)
  have pre: "\<exists>ys. first_seen (texts @ [key]) = first_seen texts @ ys"
    by (simp add: first_seen_snoc)
  have "(?codes @ [fst (get_string_id key ?c)]) ! i < length (first_seen (texts @ [key]))
        \<and> first_seen (texts @ [key]) ! ((?codes @ [fst (get_string_id key ?c)]) ! i)
            = (texts @ [key]) ! i"
    if "i < length (texts @ [key])" for i
  proof (cases "i < length texts")
    case True
    with n [OF True] l pre show ?thesis
      by (auto simp: nth_append)
  next
    case False
    with that have "i = length texts" by simp
    with l get_string_id_code [OF d, of key] k' show ?thesis
      by (simp add: nth_append)
  qed
  with get_string_id_dict_ok [OF d, of key] k' l show ?case
    by (simp only: intern_all_snoc fst_conv snd_conv length_append list.size) simp
qed

lemma distinct_first_seen [simp]: "distinct (first_seen xs)"
  by (simp add: first_seen_def)

subsection \<open>The ladder\<close>

lemma rank_inject:
  "a \<in> set ladder \<Longrightarrow> b \<in> set ladder \<Longrightarrow> rank ladder a = rank ladder b \<Longrightarrow> a = b"
  by (induction ladder) (auto split: if_splits)

section \<open>The claims\<close>

subsection \<open>C1: the conversion of stored integers\<close>

text \<open>
  C1, at the input on which the code breaks it. The integers 16777216 and 16777217,
  passed to \<^verbatim>\<open>process_integer\<close>, are stored as they are. \<^verbatim>\<open>convert_to_string\<close> reads
  each through \<^verbatim>\<open>get<float>\<close>, and both decode to 16777216.000000: the second value
  is altered and the two are no longer told apart. The integer path of the class
  itself, \<^verbatim>\<open>process_integer\<close> on a column that is already categorical, prints the same
  \<^verbatim>\<open>long\<close> with \<^verbatim>\<open>std::to_string(long)\<close>, exactly, as 16777217.
\<close>

theorem convert_to_string_integer_defect:
  "elems (number_data (run (new_chunk []) [Integer 16777216, Integer 16777217]))
     = [IntV 16777216, IntV 16777217]
   \<and> decoded (convert_to_string (run (new_chunk []) [Integer 16777216, Integer 16777217]))
     = [''16777216.000000'', ''16777216.000000'']
   \<and> decoded (run (new_chunk []) [Categorical ''s'', Integer 16777216, Integer 16777217])
     = [''s'', ''16777216'', ''16777217'']"
  by code_simp

subsection \<open>C2: an empty text in a numeric column is a zero\<close>

text \<open>
  C2. In numeric mode with at least one stored number, \<^verbatim>\<open>process_categorical\<close> with
  an empty range appends the integer 0 to the numeric store: the size grows by one,
  the last value is 0, the categorical store is untouched and the column stays
  numeric. The call has no failing branch.
\<close>

theorem process_categorical_empty_numeric:
  assumes "get_semantics c = NUMERIC" and "0 < wv_size (number_data c)"
  shows "elems (number_data (process_categorical [] c)) = elems (number_data c) @ [IntV 0]
    \<and> size_chunk (process_categorical [] c) = size_chunk c + 1
    \<and> get_semantics (process_categorical [] c) = NUMERIC
    \<and> cat_data (process_categorical [] c) = cat_data c"
proof -
  from assms(1) have "wv_size (cat_data c) = 0"
    by (simp add: get_semantics_def split: if_splits)
  with assms(2) show ?thesis
    by (simp add: process_categorical_def size_chunk_def get_semantics_def)
qed

text \<open>The numbers 1, 2 followed by an empty text are 1, 2, 0.\<close>

theorem process_categorical_empty_numeric_witness:
  "elems (number_data (process_categorical [] (run (new_chunk []) [Integer 1, Integer 2])))
     = [IntV 1, IntV 2, IntV 0]
   \<and> size_chunk (process_categorical [] (run (new_chunk []) [Integer 1, Integer 2])) = 3
   \<and> get_semantics (process_categorical [] (run (new_chunk []) [Integer 1, Integer 2])) = NUMERIC"
proof -
  have s: "get_semantics (run (new_chunk []) [Integer 1, Integer 2]) = NUMERIC"
    by code_simp
  have n: "0 < wv_size (number_data (run (new_chunk []) [Integer 1, Integer 2]))"
    by code_simp
  have e: "elems (number_data (run (new_chunk []) [Integer 1, Integer 2])) = [IntV 1, IntV 2]"
    by code_simp
  have z: "size_chunk (run (new_chunk []) [Integer 1, Integer 2]) = 2"
    by code_simp
  show ?thesis
    using process_categorical_empty_numeric [OF s n] e z by simp
qed

subsection \<open>C3: the texts of 1, 2, 0 and x\<close>

text \<open>
  C3, at its own input, on which the code breaks it. The numbers 1, 2 and the empty
  text leave the integers 1, 2, 0 in a numeric column. The text x then converts them:
  the column is categorical with exactly 4 entries and no number left, as the claim
  says, but the entries decode to 1.000000, 2.000000, 0.000000, x and not to 1, 2, 0,
  x, since \<^verbatim>\<open>convert_to_string\<close> reads the stored integers through \<^verbatim>\<open>get<float>\<close>. The
  integer path of the class itself gives the claim's texts: on a column that is
  already categorical, \<^verbatim>\<open>process_integer\<close> makes of the same integers the entries 1, 2,
  0. One column can so hold 1.000000 and 1 for the same integer.
\<close>

theorem empty_then_text_integer_defect:
  "elems (number_data (run (new_chunk []) [Integer 1, Integer 2, Categorical []]))
     = [IntV 1, IntV 2, IntV 0]
   \<and> get_semantics (run (new_chunk []) [Integer 1, Integer 2, Categorical [], Categorical ''x''])
     = STRINGISH
   \<and> size_chunk (run (new_chunk []) [Integer 1, Integer 2, Categorical [], Categorical ''x''])
     = 4
   \<and> decoded (run (new_chunk []) [Integer 1, Integer 2, Categorical [], Categorical ''x''])
     = [''1.000000'', ''2.000000'', ''0.000000'', ''x'']
   \<and> decoded (run (new_chunk []) [Integer 1, Integer 2, Categorical [], Categorical ''x''])
     \<noteq> [''1'', ''2'', ''0'', ''x'']
   \<and> decoded (run (new_chunk []) [Categorical ''s'', Integer 1, Integer 2, Integer 0])
     = [''s'', ''1'', ''2'', ''0'']
   \<and> decoded (run (new_chunk []) [Integer 1, Categorical ''x'', Integer 1])
     = [''1.000000'', ''x'', ''1'']"
  by code_simp

subsection \<open>C4: the mode invariant\<close>

text \<open>
  C4 as stated fails: after \<^verbatim>\<open>process_integer(1)\<close> and \<^verbatim>\<open>add_cat_data("x")\<close> on a fresh
  chunk both stores hold one element.
\<close>

theorem mode_invariant_broken_counterexample:
  "wv_size (number_data (run (new_chunk []) [Integer 1, AddCat ''x''])) = 1
   \<and> wv_size (cat_data (run (new_chunk []) [Integer 1, AddCat ''x''])) = 1"
  by code_simp

text \<open>
  C4, as amended. After any sequence of \<^verbatim>\<open>process_float\<close>, \<^verbatim>\<open>process_integer\<close>,
  \<^verbatim>\<open>process_categorical\<close>, \<^verbatim>\<open>add_cat_data\<close>, \<^verbatim>\<open>convert_to_string\<close> and \<^verbatim>\<open>clear\<close>
  calls on a fresh chunk in which \<^verbatim>\<open>add_cat_data\<close> is called only while the numeric
  store is empty, at most one of the two stores is non-empty.
\<close>

theorem mode_invariant_guarded:
  "add_cat_guarded (new_chunk name) calls \<Longrightarrow>
     wv_size (number_data (run (new_chunk name) calls)) = 0
     \<or> wv_size (cat_data (run (new_chunk name) calls)) = 0"
  using mode_ok_guarded_run [OF mode_ok_new_chunk] by (simp add: mode_ok_def)

text \<open>A guarded sequence with every kind of call.\<close>

theorem mode_invariant_guarded_witness:
  "add_cat_guarded (new_chunk [])
     [AddCat ''a'', Clear, Integer 5, Float (Finite False 1 0), Categorical ''b'', Convert]
   \<and> wv_size (number_data (run (new_chunk [])
        [AddCat ''a'', Clear, Integer 5, Float (Finite False 1 0), Categorical ''b'', Convert])) = 0"
proof -
  have g: "add_cat_guarded (new_chunk [])
     [AddCat ''a'', Clear, Integer 5, Float (Finite False 1 0), Categorical ''b'', Convert]"
    by code_simp
  have n: "wv_size (cat_data (run (new_chunk [])
        [AddCat ''a'', Clear, Integer 5, Float (Finite False 1 0), Categorical ''b'', Convert])) \<noteq> 0"
    by code_simp
  show ?thesis
    using mode_invariant_guarded [OF g] g n by simp
qed

subsection \<open>C5: the conversion is one-way\<close>

text \<open>
  C5. Once \<^verbatim>\<open>convert_to_string\<close> has run on a chunk that holds numbers, after any
  further sequence of \<^verbatim>\<open>process_float\<close>, \<^verbatim>\<open>process_integer\<close> and
  \<^verbatim>\<open>process_categorical\<close> calls \<^verbatim>\<open>get_semantics\<close> reports \<^verbatim>\<open>STRINGISH\<close>, and a next
  float or integer is rendered to its text and appended as a categorical code.
\<close>

theorem categorical_for_good:
  assumes "0 < wv_size (number_data c)" and "\<forall>call \<in> set calls. is_process call"
  shows "get_semantics (run (convert_to_string c) calls) = STRINGISH
    \<and> process_float val (run (convert_to_string c) calls)
        = add_cat_data (to_string_float val) (run (convert_to_string c) calls)
    \<and> process_integer ival (run (convert_to_string c) calls)
        = add_cat_data (to_string_long ival) (run (convert_to_string c) calls)"
proof -
  have s: "settled (run (convert_to_string c) calls)"
    using assms by (simp add: settled_run settled_convert_to_string)
  then have "get_semantics (run (convert_to_string c) calls) = STRINGISH"
    by (simp add: settled_def get_semantics_def)
  with s show ?thesis
    by (simp add: settled_process)
qed

text \<open>After the conversion of 4, the inputs 2.5, -3, an empty text and 12 are texts.\<close>

theorem categorical_for_good_witness:
  "get_semantics (run (convert_to_string (run (new_chunk []) [Integer 4]))
     [Float (Finite False 5 (- 1)), Integer (- 3), Categorical []]) = STRINGISH
   \<and> decoded (process_integer 12 (run (convert_to_string (run (new_chunk []) [Integer 4]))
     [Float (Finite False 5 (- 1)), Integer (- 3), Categorical []]))
     = [''4.000000'', ''2.500000'', ''-3'', [], ''12'']"
proof -
  have n: "0 < wv_size (number_data (run (new_chunk []) [Integer 4]))"
    by code_simp
  have p: "\<forall>call \<in> set [Float (Finite False 5 (- 1)), Integer (- 3), Categorical []].
             is_process call"
    by simp
  have d: "decoded (add_cat_data (to_string_long 12)
             (run (convert_to_string (run (new_chunk []) [Integer 4]))
                [Float (Finite False 5 (- 1)), Integer (- 3), Categorical []]))
           = [''4.000000'', ''2.500000'', ''-3'', [], ''12'']"
    by code_simp
  show ?thesis
    using categorical_for_good [OF n p, of _ 12] d by simp
qed

subsection \<open>C6: the dictionary\<close>

text \<open>
  C6. Interning a sequence of texts into a fresh dictionary gives one code for each
  text; the key list is the list of the distinct texts in first-seen order; the key
  list at a code is the text interned; the code of a text is its position in the
  first-seen order, so the codes are 0, 1, 2, ... in that order; and a text seen before
  gets the code of its first interning.
\<close>

theorem intern_first_seen:
  assumes "intern_all texts (new_chunk name) = (codes, c)"
  shows "length codes = length texts
    \<and> get_cat_keys c = first_seen texts
    \<and> (\<forall>i<length texts. codes ! i < length (get_cat_keys c)
          \<and> get_cat_keys c ! (codes ! i) = texts ! i)
    \<and> (\<forall>i<length texts. \<forall>k<length (first_seen texts).
          codes ! i = k \<longleftrightarrow> texts ! i = first_seen texts ! k)
    \<and> (\<forall>i<length texts. \<forall>j<length texts. texts ! i = texts ! j \<longrightarrow> codes ! i = codes ! j)"
proof -
  from assms have codes: "codes = fst (intern_all texts (new_chunk name))"
    and c: "c = snd (intern_all texts (new_chunk name))"
    by simp_all
  note f = intern_all_fresh [of texts name, folded codes c]
  from f have keys: "get_cat_keys c = first_seen texts" and len: "length codes = length texts"
    and dec: "\<And>i. i < length texts \<Longrightarrow>
      codes ! i < length (first_seen texts) \<and> first_seen texts ! (codes ! i) = texts ! i"
    by (simp_all add: get_cat_keys_def)
  have pos: "codes ! i = k \<longleftrightarrow> texts ! i = first_seen texts ! k"
    if "i < length texts" "k < length (first_seen texts)" for i k
    using dec [OF that(1)] that(2) distinct_first_seen [of texts]
    by (auto simp: nth_eq_iff_index_eq)
  have same: "codes ! i = codes ! j"
    if "i < length texts" "j < length texts" "texts ! i = texts ! j" for i j
  proof -
    from dec [OF that(2)] have j: "codes ! j < length (first_seen texts)"
      and e: "first_seen texts ! (codes ! j) = texts ! j"
      by blast+
    have "texts ! i = first_seen texts ! (codes ! j)"
      unfolding e by (rule that(3))
    with pos [OF that(1) j] show ?thesis
      by blast
  qed
  show ?thesis
    unfolding keys using len dec pos same by blast
qed

text \<open>
  The texts a, b, a, c get the codes 0, 1, 0, 2, the key list is a, b, c, and the key
  list at the codes is a, b, a, c again.
\<close>

theorem intern_first_seen_witness:
  "fst (intern_all [''a'', ''b'', ''a'', ''c''] (new_chunk [])) = [0, 1, 0, 2]
   \<and> get_cat_keys (snd (intern_all [''a'', ''b'', ''a'', ''c''] (new_chunk []))) = [''a'', ''b'', ''c'']
   \<and> get_cat_keys (snd (intern_all [''a'', ''b'', ''a'', ''c''] (new_chunk [])))
       = first_seen [''a'', ''b'', ''a'', ''c'']
   \<and> map ((!) (get_cat_keys (snd (intern_all [''a'', ''b'', ''a'', ''c''] (new_chunk [])))))
        (fst (intern_all [''a'', ''b'', ''a'', ''c''] (new_chunk [])))
       = [''a'', ''b'', ''a'', ''c'']"
proof -
  have e: "intern_all [''a'', ''b'', ''a'', ''c''] (new_chunk [])
           = (fst (intern_all [''a'', ''b'', ''a'', ''c''] (new_chunk [])),
              snd (intern_all [''a'', ''b'', ''a'', ''c''] (new_chunk [])))"
    by simp
  have v: "fst (intern_all [''a'', ''b'', ''a'', ''c''] (new_chunk [])) = [0, 1, 0, 2]"
    by code_simp
  have k: "get_cat_keys (snd (intern_all [''a'', ''b'', ''a'', ''c''] (new_chunk [])))
           = [''a'', ''b'', ''c'']"
    by code_simp
  from intern_first_seen [OF e]
  have f: "get_cat_keys (snd (intern_all [''a'', ''b'', ''a'', ''c''] (new_chunk [])))
           = first_seen [''a'', ''b'', ''a'', ''c'']"
    by (rule conjunct1 [OF conjunct2])
  have m: "map ((!) [''a'', ''b'', ''c'']) [0, 1, 0, 2] = [''a'', ''b'', ''a'', ''c'']"
    by simp
  show ?thesis
    unfolding v using f m unfolding k by simp
qed

subsection \<open>C7: the common type\<close>

text \<open>
  C7. For two chunks in numeric mode whose type identifiers \<open>A\<close> and \<open>B\<close> are
  candidates of the numeric ladder, the common type of the first with \<open>B\<close> is the
  common type of the second with \<open>A\<close>. And when either side is the string identifier,
  the chunk being categorical or the other identifier being the string's, the common
  type is the string identifier.
\<close>

theorem common_type_symmetric:
  "(A \<in> set number_ladder \<and> B \<in> set number_ladder
      \<and> get_semantics c1 = NUMERIC \<and> get_semantics c2 = NUMERIC
      \<and> get_type_index c1 = A \<and> get_type_index c2 = B
      \<longrightarrow> get_common_type_index c1 B = get_common_type_index c2 A)
   \<and> (get_semantics c = STRINGISH \<or> get_type_index c = T_string \<or> other = T_string
      \<longrightarrow> get_common_type_index c other = T_string)"
proof (intro conjI impI)
  assume h: "A \<in> set number_ladder \<and> B \<in> set number_ladder
      \<and> get_semantics c1 = NUMERIC \<and> get_semantics c2 = NUMERIC
      \<and> get_type_index c1 = A \<and> get_type_index c2 = B"
  then have e: "wv_size (cat_data c1) = 0" "wv_size (cat_data c2) = 0"
    by (simp_all add: get_semantics_def split: if_splits)
  with h have a: "active (number_data c1) = A" "active (number_data c2) = B"
    by (simp_all add: get_type_index_def wv_get_type_index_def)
  from h have s: "A \<noteq> T_string" "B \<noteq> T_string"
    by (auto simp: number_ladder_def)
  from h have "rank number_ladder A = rank number_ladder B \<Longrightarrow> A = B"
    by (blast intro: rank_inject)
  with e a s show "get_common_type_index c1 B = get_common_type_index c2 A"
    by (auto simp: get_common_type_index_def wv_get_common_type_index_def)
next
  assume "get_semantics c = STRINGISH \<or> get_type_index c = T_string \<or> other = T_string"
  then show "get_common_type_index c other = T_string"
    by (auto simp: get_common_type_index_def wv_get_common_type_index_def get_semantics_def
        get_type_index_def wv_get_type_index_def split: if_splits)
qed

text \<open>
  A chunk of type \<^verbatim>\<open>int16_t\<close> and one of type \<^verbatim>\<open>float\<close> agree on \<^verbatim>\<open>float\<close>; a
  categorical chunk and \<^verbatim>\<open>int8_t\<close> give the string identifier.
\<close>

theorem common_type_symmetric_witness:
  "get_common_type_index (run (new_chunk []) [Integer 300]) T_float = T_float
   \<and> get_common_type_index (run (new_chunk []) [Float (Finite False 1 (- 1))]) T_int16 = T_float
   \<and> get_common_type_index (run (new_chunk []) [Categorical ''x'']) T_int8 = T_string"
proof -
  have h: "T_int16 \<in> set number_ladder \<and> T_float \<in> set number_ladder
      \<and> get_semantics (run (new_chunk []) [Integer 300]) = NUMERIC
      \<and> get_semantics (run (new_chunk []) [Float (Finite False 1 (- 1))]) = NUMERIC
      \<and> get_type_index (run (new_chunk []) [Integer 300]) = T_int16
      \<and> get_type_index (run (new_chunk []) [Float (Finite False 1 (- 1))]) = T_float"
    by code_simp
  have v: "get_common_type_index (run (new_chunk []) [Integer 300]) T_float = T_float"
    by code_simp
  have x: "get_semantics (run (new_chunk []) [Categorical ''x'']) = STRINGISH"
    by code_simp
  note t = common_type_symmetric
    [of T_int16 T_float "run (new_chunk []) [Integer 300]"
      "run (new_chunk []) [Float (Finite False 1 (- 1))]"
      "run (new_chunk []) [Categorical ''x'']" T_int8]
  from t h have sym: "get_common_type_index (run (new_chunk []) [Integer 300]) T_float
      = get_common_type_index (run (new_chunk []) [Float (Finite False 1 (- 1))]) T_int16"
    by blast
  from t x have str: "get_common_type_index (run (new_chunk []) [Categorical ''x'']) T_int8 = T_string"
    by blast
  from v sym str show ?thesis
    by simp
qed

subsection \<open>C8: numeric reads of a categorical column\<close>

text \<open>
  C8 as stated fails: after \<^verbatim>\<open>process_integer(1)\<close> and \<^verbatim>\<open>add_cat_data("x")\<close> the column
  is categorical, and the numeric-typed \<^verbatim>\<open>get<float, true>(0)\<close> returns the number 1.
\<close>

theorem numeric_get_unchecked_counterexample:
  "get_semantics (run (new_chunk []) [Integer 1, AddCat ''x'']) = STRINGISH
   \<and> get as_float True (run (new_chunk []) [Integer 1, AddCat ''x'']) 0 = Inr (Finite False 1 0)"
  by code_simp

text \<open>
  C8, as amended. In categorical mode \<^verbatim>\<open>insert_numeric\<close> fails with the InvalidState
  error and returns no data. The numeric-typed \<^verbatim>\<open>get\<close> does not look at the mode: it
  is the read of the numeric store, the element at the index when the index is below
  the size of the numeric store and the vector's out-of-range failure otherwise, and
  never the InvalidState error.
\<close>

theorem numeric_read_categorical:
  "get_semantics c = STRINGISH \<Longrightarrow>
     insert_numeric cast c = Inl InvalidState
     \<and> get conv True c i =
         (if i < wv_size (number_data c) then Inr (conv (elems (number_data c) ! i))
          else Inl OutOfRange)
     \<and> get conv True c i \<noteq> Inl InvalidState"
  by (simp add: get_semantics_def insert_numeric_def get_def wv_get_def split: if_splits)

text \<open>A column converted by the text x: the bulk read fails, the single read is out of range.\<close>

theorem numeric_read_categorical_witness:
  "get_semantics (run (new_chunk []) [Integer 1, Categorical ''x'']) = STRINGISH
   \<and> insert_numeric (\<lambda>f. f) (run (new_chunk []) [Integer 1, Categorical ''x''])
       = Inl InvalidState
   \<and> get as_float True (run (new_chunk []) [Integer 1, Categorical ''x'']) 0 = Inl OutOfRange"
proof -
  have x: "get_semantics (run (new_chunk []) [Integer 1, Categorical ''x'']) = STRINGISH"
    by code_simp
  have n: "wv_size (number_data (run (new_chunk []) [Integer 1, Categorical ''x''])) = 0"
    by code_simp
  show ?thesis
    using numeric_read_categorical [OF x, of "\<lambda>f. f" as_float 0] x n by simp
qed

subsection \<open>C9: clear\<close>

text \<open>
  C9. After \<^verbatim>\<open>clear\<close> on any chunk the size is 0 and the semantics is numeric, as for
  a freshly constructed chunk; both stores, the code map and the key list are empty,
  and the chunk is the fresh chunk of the same column name.
\<close>

theorem clear_resets:
  "size_chunk (clear c) = 0
   \<and> get_semantics (clear c) = NUMERIC
   \<and> size_chunk (new_chunk name) = 0
   \<and> get_semantics (new_chunk name) = NUMERIC
   \<and> number_data (clear c) = wv_new number_ladder
   \<and> cat_data (clear c) = wv_new cat_ladder
   \<and> cat_ids (clear c) = Mapping.empty
   \<and> get_cat_keys (clear c) = []
   \<and> clear c = new_chunk (column_name c)"
  by (simp add: clear_def new_chunk_def size_chunk_def get_semantics_def wv_clear_def
      get_cat_keys_def)

text \<open>A categorical chunk with three entries is cleared.\<close>

theorem clear_resets_witness:
  "size_chunk (run (new_chunk ''n'') [Integer 1]) = 1
   \<and> size_chunk (run (new_chunk ''n'') [Categorical ''a'', Categorical ''b'', Integer 3]) = 3
   \<and> size_chunk (clear (run (new_chunk ''n'') [Categorical ''a'', Categorical ''b'', Integer 3])) = 0
   \<and> get_semantics (clear (run (new_chunk ''n'') [Categorical ''a'', Categorical ''b'', Integer 3]))
       = NUMERIC
   \<and> get_cat_keys (clear (run (new_chunk ''n'') [Categorical ''a'', Categorical ''b'', Integer 3]))
       = []"
proof -
  have a: "size_chunk (run (new_chunk ''n'') [Integer 1]) = 1"
    by code_simp
  have b: "size_chunk (run (new_chunk ''n'') [Categorical ''a'', Categorical ''b'', Integer 3]) = 3"
    by code_simp
  show ?thesis
    using clear_resets
      [of "run (new_chunk ''n'') [Categorical ''a'', Categorical ''b'', Integer 3]" "''n''"] a b
    by blast
qed

subsection \<open>C10: one call, one element\<close>

text \<open>
  C10 as stated fails: after \<^verbatim>\<open>process_integer(1)\<close> and \<^verbatim>\<open>add_cat_data("x")\<close> both
  stores hold one element and the size is 1; \<^verbatim>\<open>process_categorical\<close> with an empty
  range then appends a zero to the numeric store, and the size is still 1.
\<close>

theorem size_grows_broken_counterexample:
  "size_chunk (run (new_chunk []) [Integer 1, AddCat ''x'']) = 1
   \<and> size_chunk (process_categorical [] (run (new_chunk []) [Integer 1, AddCat ''x''])) = 1"
  by code_simp

text \<open>
  C10, as amended. On a chunk of which at most one store is non-empty, every call of
  \<^verbatim>\<open>process_float\<close>, \<^verbatim>\<open>process_integer\<close> or \<^verbatim>\<open>process_categorical\<close> increases the size
  by exactly one, in either mode, the empty text taken as a zero and the call that
  converts the numbers included.
\<close>

theorem size_grows_by_one:
  assumes "wv_size (number_data c) = 0 \<or> wv_size (cat_data c) = 0"
  shows "size_chunk (process_float val c) = size_chunk c + 1
    \<and> size_chunk (process_integer ival c) = size_chunk c + 1
    \<and> size_chunk (process_categorical key c) = size_chunk c + 1"
proof -
  have k: "size_chunk (process_categorical key c) = size_chunk c + 1" for key
    using assms
    by (auto simp: process_categorical_def size_chunk_def wv_size_convert_to_string)
  have "size_chunk (process_float val c) = size_chunk c + 1"
    using k [of "to_string_float val"] by (auto simp: process_float_def) (simp add: size_chunk_def)
  moreover have "size_chunk (process_integer ival c) = size_chunk c + 1"
    using k [of "to_string_long ival"] by (auto simp: process_integer_def) (simp add: size_chunk_def)
  ultimately show ?thesis
    using k by simp
qed

text \<open>The text x after the numbers 1, 2 converts them and makes three entries.\<close>

theorem size_grows_by_one_witness:
  "size_chunk (process_categorical ''x'' (run (new_chunk []) [Integer 1, Integer 2])) = 3
   \<and> size_chunk (process_float (Finite False 1 0) (run (new_chunk []) [Integer 1, Integer 2])) = 3"
proof -
  have m: "wv_size (number_data (run (new_chunk []) [Integer 1, Integer 2])) = 0
           \<or> wv_size (cat_data (run (new_chunk []) [Integer 1, Integer 2])) = 0"
    by code_simp
  have z: "size_chunk (run (new_chunk []) [Integer 1, Integer 2]) = 2"
    by code_simp
  show ?thesis
    using size_grows_by_one [OF m, of "Finite False 1 0" _ "''x''"] z by simp
qed

end
